theory Spec2Isabelle
  imports Main "HOL-Library.Sublist"
begin

section \<open>Python text and values\<close>

text \<open>
  Python \<open>str\<close> values are modelled as Isabelle strings holding the UTF-8 bytes of the text.
  Equality, concatenation and the substring test \<open>a in b\<close> agree on code points and on
  their UTF-8 encoding. \<open>str.lower\<close> and \<open>str.strip\<close> are functions of the Python library;
  \<open>py_lower\<close> and \<open>py_strip\<close> below model them on the ASCII range, where they are exact:
  \<open>lower\<close> maps \<open>A\<close>..\<open>Z\<close> to \<open>a\<close>..\<open>z\<close>, and \<open>strip\<close> removes the ASCII characters for
  which \<open>str.isspace\<close> holds (code points 9 to 13 and 28 to 32). On text outside ASCII the
  library does more (it folds letters and strips white space of all of Unicode), so the
  properties stated for every keyword do not use these two functions: they take the
  normalisation of the keyword as a parameter (\<open>find_movies_with\<close>).
\<close>

type_synonym pystr = string

definition py_isspace :: "char \<Rightarrow> bool" where
  "py_isspace c = (let n = (of_char c :: nat) in (9 \<le> n \<and> n \<le> 13) \<or> (28 \<le> n \<and> n \<le> 32))"

definition lower_char :: "char \<Rightarrow> char" where
  "lower_char c = (let n = (of_char c :: nat) in if 65 \<le> n \<and> n \<le> 90 then char_of (n + 32) else c)"

definition py_lower :: "pystr \<Rightarrow> pystr" where
  "py_lower s = map lower_char s"

definition py_strip :: "pystr \<Rightarrow> pystr" where
  "py_strip s = rev (dropWhile py_isspace (rev (dropWhile py_isspace s)))"

text \<open>The operator \<open>sub in s\<close> on two strings: \<open>sub\<close> occurs in \<open>s\<close> as a contiguous run.\<close>

definition py_in :: "pystr \<Rightarrow> pystr \<Rightarrow> bool" where
  "py_in sub s = sublist sub s"

text \<open>
  What an f-string prints for a value of type \<open>Optional[str]\<close>: the text itself, or
  \<open>None\<close> for the missing value.
\<close>

definition fmt_opt :: "pystr option \<Rightarrow> pystr" where
  "fmt_opt v = (case v of None \<Rightarrow> ''None'' | Some s \<Rightarrow> s)"

text \<open>
  The values the program builds and hands to \<open>json.dumps\<close>. A dictionary keeps its
  insertion order, so it is a list of pairs. A float is kept as the decimal literal the
  source writes: \<open>PFloat m d\<close> stands for \<open>m / 10 ^ d\<close>, printed with \<open>d\<close> decimal places
  (the shortest text that reads back as the same float, which is what \<open>repr\<close> prints
  for the literals of this program).
\<close>

datatype pyval =
    PNone
  | PStr pystr
  | PInt int
  | PFloat int nat
  | PList "pyval list"
  | PDict "(pystr \<times> pyval) list"

subsection \<open>Printing numbers\<close>

definition digit_char :: "nat \<Rightarrow> char" where
  "digit_char n = char_of (48 + n)"

function str_nat :: "nat \<Rightarrow> pystr" where
  "str_nat n = (if n < 10 then [digit_char n] else str_nat (n div 10) @ [digit_char (n mod 10)])"
  by pat_completeness auto
termination
  by (relation "measure id") auto

declare str_nat.simps [simp del]

definition str_int :: "int \<Rightarrow> pystr" where
  "str_int i = (if i < 0 then ''-'' @ str_nat (nat (- i)) else str_nat (nat i))"

definition float_repr :: "int \<Rightarrow> nat \<Rightarrow> pystr" where
  "float_repr m d =
     (let a = nat \<bar>m\<bar>;
          frac = str_nat (a mod 10 ^ d)
      in (if m < 0 then ''-'' else '''') @ str_nat (a div 10 ^ d) @ ''.''
         @ replicate (d - length frac) CHR ''0'' @ frac)"

subsection \<open>json.dumps\<close>

text \<open>
  \<open>json.dumps\<close> with its defaults: \<open>ensure_ascii=True\<close>, item separator \<open>", "\<close>, key
  separator \<open>": "\<close>. A string is written between double quotes; the quote, the backslash
  and the control characters with a short form are escaped with a backslash, every other
  code point outside the range from the space to the tilde is written as \<open>\uXXXX\<close> with
  four lower-case hexadecimal digits, as a surrogate pair beyond the basic plane.
\<close>

definition hex_digit :: "nat \<Rightarrow> char" where
  "hex_digit n = (if n < 10 then char_of (48 + n) else char_of (87 + n))"

definition hex4 :: "nat \<Rightarrow> pystr" where
  "hex4 n = [hex_digit (n div 4096 mod 16), hex_digit (n div 256 mod 16),
             hex_digit (n div 16 mod 16), hex_digit (n mod 16)]"

definition cont_bits :: "char \<Rightarrow> nat" where
  "cont_bits c = (of_char c :: nat) mod 64"

text \<open>The code points of a UTF-8 byte sequence, one lead byte and its continuation bytes at a time.\<close>

fun utf8_decode :: "pystr \<Rightarrow> nat list" where
  "utf8_decode [] = []"
| "utf8_decode [c] = [of_char c]"
| "utf8_decode [c, c1] =
     (let b = (of_char c :: nat) in
      if b < 128 then b # utf8_decode [c1]
      else [b mod 32 * 64 + cont_bits c1])"
| "utf8_decode [c, c1, c2] =
     (let b = (of_char c :: nat) in
      if b < 128 then b # utf8_decode [c1, c2]
      else if b < 224 then (b mod 32 * 64 + cont_bits c1) # utf8_decode [c2]
      else [(b mod 16 * 64 + cont_bits c1) * 64 + cont_bits c2])"
| "utf8_decode (c # c1 # c2 # c3 # cs) =
     (let b = (of_char c :: nat) in
      if b < 128 then b # utf8_decode (c1 # c2 # c3 # cs)
      else if b < 224 then (b mod 32 * 64 + cont_bits c1) # utf8_decode (c2 # c3 # cs)
      else if b < 240 then ((b mod 16 * 64 + cont_bits c1) * 64 + cont_bits c2) # utf8_decode (c3 # cs)
      else (((b mod 8 * 64 + cont_bits c1) * 64 + cont_bits c2) * 64 + cont_bits c3) # utf8_decode cs)"

definition backslash :: char where
  "backslash = CHR 0x5C"

definition dquote :: char where
  "dquote = CHR 0x22"

definition json_escape :: "nat \<Rightarrow> pystr" where
  "json_escape n =
     (if n = 0x22 then [backslash, dquote]
      else if n = 0x5C then [backslash, backslash]
      else if n = 0x0A then [backslash, CHR ''n'']
      else if n = 0x0D then [backslash, CHR ''r'']
      else if n = 0x09 then [backslash, CHR ''t'']
      else if n = 0x08 then [backslash, CHR ''b'']
      else if n = 0x0C then [backslash, CHR ''f'']
      else if 0x20 \<le> n \<and> n \<le> 0x7E then [char_of n]
      else if n < 0x10000 then [backslash, CHR ''u''] @ hex4 n
      else (let m = n - 0x10000 in
            [backslash, CHR ''u''] @ hex4 (0xD800 + m div 1024 mod 1024)
            @ [backslash, CHR ''u''] @ hex4 (0xDC00 + m mod 1024)))"

definition json_str :: "pystr \<Rightarrow> pystr" where
  "json_str s = [dquote] @ concat (map json_escape (utf8_decode s)) @ [dquote]"

fun join :: "pystr \<Rightarrow> pystr list \<Rightarrow> pystr" where
  "join sep [] = []"
| "join sep [x] = x"
| "join sep (x # y # ys) = x @ sep @ join sep (y # ys)"

fun json_dumps :: "pyval \<Rightarrow> pystr" where
  "json_dumps PNone = ''null''"
| "json_dumps (PStr s) = json_str s"
| "json_dumps (PInt i) = str_int i"
| "json_dumps (PFloat m d) = float_repr m d"
| "json_dumps (PList xs) = ''['' @ join '', '' (map json_dumps xs) @ '']''"
| "json_dumps (PDict kvs) =
     ''{'' @ join '', '' (map (\<lambda>kv. json_str (fst kv) @ '': '' @ json_dumps (snd kv)) kvs) @ ''}''"

section \<open>The movie metadata tool\<close>

text \<open>
  The table \<open>mock_movies\<close> of \<open>fetch_movie_metadata\<close>, in the order the dictionary
  literal lists its keys; each movie is a dictionary with the keys \<open>title\<close>, \<open>genre\<close>,
  \<open>imdb_rating\<close> and \<open>runtime_mins\<close>. The rating is given in tenths: \<open>83\<close> is the
  literal \<open>8.3\<close>.
\<close>

definition movie :: "pystr \<Rightarrow> pystr \<Rightarrow> int \<Rightarrow> int \<Rightarrow> pyval" where
  "movie t g tenths mins =
     PDict [(''title'', PStr t), (''genre'', PStr g),
            (''imdb_rating'', PFloat tenths 1), (''runtime_mins'', PInt mins)]"

definition sci_fi_movies :: "pyval list" where
  "sci_fi_movies =
     [movie ''Space Odyssey 2001'' ''Sci-Fi/Drama'' 83 149,
      movie ''Robot Detective'' ''Sci-Fi/Thriller'' 75 115,
      movie ''The Infinite Loop'' ''Sci-Fi/Mystery'' 91 180]"

definition action_movies :: "pyval list" where
  "action_movies =
     [movie ''The Fast Getaway'' ''Action/Thriller'' 78 95,
      movie ''Mountain Commandos'' ''Action/War'' 80 122]"

definition comedy_movies :: "pyval list" where
  "comedy_movies =
     [movie ''The Office Party'' ''Comedy/Slice of Life'' 69 88,
      movie ''Wacky Neighbors'' ''Comedy/Slapstick'' 72 105]"

definition mock_movies :: "(pystr \<times> pyval list) list" where
  "mock_movies =
     [(''sci-fi'', sci_fi_movies), (''action'', action_movies), (''comedy'', comedy_movies)]"

text \<open>The truth value Python gives an \<open>Optional[List]\<close>: \<open>None\<close> and the empty list are false.\<close>

definition truthy :: "'a list option \<Rightarrow> bool" where
  "truthy v = (case v of None \<Rightarrow> False | Some xs \<Rightarrow> xs \<noteq> [])"

text \<open>The warning sign and its variation selector (U+26A0, U+FE0F) that start the not-found text.\<close>

definition warning_sign :: pystr where
  "warning_sign = [CHR 0xE2, CHR 0x9A, CHR 0xA0, CHR 0xEF, CHR 0xB8, CHR 0x8F]"

definition not_found_text :: "pystr \<Rightarrow> pystr" where
  "not_found_text preference_keyword =
     warning_sign @ '' Could not find movies matching: '' @ preference_keyword
     @ ''. Try 'sci-fi', 'action', or 'comedy'.''"

text \<open>
  The value of the variable \<open>movies\<close> when the function reaches its last \<open>if\<close>: the exact
  lookup of the normalised keyword, and on a miss the first category of the scan
  \<open>for key, value in mock_movies.items()\<close> that passes the test
  \<open>key in keyword or preference_keyword in key\<close>.
\<close>

definition find_movies :: "pystr \<Rightarrow> pyval list option" where
  "find_movies preference_keyword =
     (let keyword = py_strip (py_lower preference_keyword);
          movies = map_of mock_movies keyword
      in if \<not> truthy movies
         then (case find (\<lambda>(key, value). py_in key keyword \<or> py_in preference_keyword key) mock_movies of
                 Some (key, value) \<Rightarrow> Some value
               | None \<Rightarrow> movies)
         else movies)"

definition fetch_movie_metadata :: "pystr \<Rightarrow> pystr" where
  "fetch_movie_metadata preference_keyword =
     (let movies = find_movies preference_keyword
      in if truthy movies
         then (case movies of Some ms \<Rightarrow> json_dumps (PList ms) | None \<Rightarrow> json_dumps PNone)
         else not_found_text preference_keyword)"

text \<open>
  The same function with the normalisation \<open>preference_keyword.lower().strip()\<close> of the
  library as a parameter \<open>normalise\<close>; every other statement is as above. With
  \<open>lower_strip\<close> for the parameter it is \<open>fetch_movie_metadata\<close>.
\<close>

definition find_movies_with :: "(pystr \<Rightarrow> pystr) \<Rightarrow> pystr \<Rightarrow> pyval list option" where
  "find_movies_with normalise preference_keyword =
     (let keyword = normalise preference_keyword;
          movies = map_of mock_movies keyword
      in if \<not> truthy movies
         then (case find (\<lambda>(key, value). py_in key keyword \<or> py_in preference_keyword key) mock_movies of
                 Some (key, value) \<Rightarrow> Some value
               | None \<Rightarrow> movies)
         else movies)"

definition fetch_movie_metadata_with :: "(pystr \<Rightarrow> pystr) \<Rightarrow> pystr \<Rightarrow> pystr" where
  "fetch_movie_metadata_with normalise preference_keyword =
     (let movies = find_movies_with normalise preference_keyword
      in if truthy movies
         then (case movies of Some ms \<Rightarrow> json_dumps (PList ms) | None \<Rightarrow> json_dumps PNone)
         else not_found_text preference_keyword)"

definition lower_strip :: "pystr \<Rightarrow> pystr" where
  "lower_strip s = py_strip (py_lower s)"

text \<open>
  The run of the function as a relation between the keyword and the string returned, one
  rule for each path through its statements. \<open>for_loop items keyword preference_keyword
  movies movies'\<close> is the loop \<open>for key, value in mock_movies.items()\<close> over the items still
  to visit, in the order of the dictionary: it ends when no item is left, it assigns
  \<open>movies\<close> and leaves at the first item that passes the test, and it goes on to the next
  item otherwise.
\<close>

inductive for_loop ::
  "(pystr \<times> pyval list) list \<Rightarrow> pystr \<Rightarrow> pystr \<Rightarrow> pyval list option \<Rightarrow> pyval list option \<Rightarrow> bool" where
  for_end: "for_loop [] keyword preference_keyword movies movies"
| for_break:
    "py_in key keyword \<or> py_in preference_keyword key \<Longrightarrow>
     for_loop ((key, value) # items) keyword preference_keyword movies (Some value)"
| for_next:
    "\<not> (py_in key keyword \<or> py_in preference_keyword key) \<Longrightarrow>
     for_loop items keyword preference_keyword movies movies' \<Longrightarrow>
     for_loop ((key, value) # items) keyword preference_keyword movies movies'"

code_pred for_loop .

inductive fetch_run :: "(pystr \<Rightarrow> pystr) \<Rightarrow> pystr \<Rightarrow> pystr \<Rightarrow> bool" where
  run_exact:
    "keyword = normalise preference_keyword \<Longrightarrow>
     map_of mock_movies keyword = Some ms \<Longrightarrow> ms \<noteq> [] \<Longrightarrow>
     fetch_run normalise preference_keyword (json_dumps (PList ms))"
| run_fallback:
    "keyword = normalise preference_keyword \<Longrightarrow>
     \<not> truthy (map_of mock_movies keyword) \<Longrightarrow>
     for_loop mock_movies keyword preference_keyword (map_of mock_movies keyword) (Some ms) \<Longrightarrow>
     ms \<noteq> [] \<Longrightarrow>
     fetch_run normalise preference_keyword (json_dumps (PList ms))"
| run_not_found:
    "keyword = normalise preference_keyword \<Longrightarrow>
     \<not> truthy (map_of mock_movies keyword) \<Longrightarrow>
     for_loop mock_movies keyword preference_keyword (map_of mock_movies keyword) movies \<Longrightarrow>
     \<not> truthy movies \<Longrightarrow>
     fetch_run normalise preference_keyword (not_found_text preference_keyword)"

code_pred fetch_run .

section \<open>The conversation state\<close>

definition SYSTEM_PROMPT :: pystr where
  "SYSTEM_PROMPT =
     ''\<newline>'' @
     ''You are the **Movie Recommendation Engine (MRE)**. Your core function is to provide highly curated and justified movie suggestions based on user preferences (genre, runtime, rating, etc.). You **must** utilize the Chain-of-Thought (CoT) reasoning pattern for every response, regardless of the complexity of the user's query.\<newline>'' @
     ''\<newline>'' @
     ''### 1. Chain-of-Thought (CoT) Requirement\<newline>'' @
     ''**STRICT RULE:** Your output must begin with an invisible **THOUGHT** block where you detail your step-by-step analysis. Do not show this THOUGHT block to the user.\<newline>'' @
     ''\<newline>'' @
     ''**The CoT Process MUST include:**\<newline>'' @
     ''1.  **Data Ingestion:** Identify the user's primary preferences (e.g., 'sci-fi', 'short runtime', 'high rating').\<newline>'' @
     ''2.  **Tool Execution Planning:** Plan to use the `fetch_movie_metadata` tool with the primary preference keyword.\<newline>'' @
     ''3.  **Source Cross-Verification:** Mentally synthesize the list of movies received from the tool. Filter and categorize them by the user's explicit constraints (e.g., must be over an 8.0 rating, less than 120 minutes runtime).\<newline>'' @
     ''4.  **Contextual Interpretation:** Select the absolute best recommendation, highlighting *why* it is the best fit based on the user's input and the analyzed metrics (rating, runtime, genre fit).\<newline>'' @
     ''5.  **Final Synthesis:** Construct the final, clear, and direct Movie Recommendation statement based *only* on the conclusion of the analysis.\<newline>'' @
     ''\<newline>'' @
     ''### 2. Output Format\<newline>'' @
     ''Your final, user-facing output **must** be clear and structured, beginning with the **Recommendation Summary** and concluding with the **Justification** based on your CoT process.\<newline>'' @
     ''\<newline>'' @
     ''**Required User-Facing Format:**\<newline>'' @
     ''1.  **Summary Greeting:** A concise, enthusiastic greeting relevant to the user's taste.\<newline>'' @
     ''2.  **Top Recommendation:** State the **Top Recommendation**, including Title and Primary Genre.\<newline>'' @
     ''3.  **Key Metrics:** List the key metrics (e.g., IMDb Rating, Runtime).\<newline>'' @
     ''4.  **---** (Horizontal Rule)\<newline>'' @
     ''5.  **Recommendation Justification:** A brief, compelling explanation (1-2 sentences) of *why* this movie was selected based on the analyzed data and user preferences.\<newline>'' @
     ''\<newline>'' @
     ''### 3. Constraints\<newline>'' @
     ''* **Focus on Quality:** Prioritize high-rated and well-fitting options.\<newline>'' @
     ''* **Avoid Spoilers:** Only provide metadata and fit assessment, not plot details.\<newline>'' @
     ''* **Use Standard Film Terminology:** Use clear terms like 'runtime', 'rating', and 'genre'.\<newline>'' @
     ''''"

text \<open>
  One structured step of the model, the class \<open>MyOutputFormat\<close>: the step kind is any
  string, the three other fields are optional and \<open>None\<close> when the model leaves them out.
\<close>

record MyOutputFormat =
  step :: pystr
  content :: "pystr option"
  tool :: "pystr option"
  input :: "pystr option"

text \<open>
  What one call of \<open>client.chat.completions.parse\<close> hands back and the loop reads: the
  raw text of the message and the parsed step. The model is a collaborator outside the
  program; it is a function from the transcript it is sent to its answer.
\<close>

record response =
  raw_result :: pystr
  parsed :: MyOutputFormat

type_synonym llm = "pyval list \<Rightarrow> response"

text \<open>A transcript entry is the dictionary \<open>{"role": r, "content": c}\<close>.\<close>

definition msg :: "pystr \<Rightarrow> pystr \<Rightarrow> pyval" where
  "msg r c = PDict [(''role'', PStr r), (''content'', PStr c)]"

text \<open>
  The two attributes the program keeps in \<open>st.session_state\<close>: the transcript
  \<open>messages\<close> sent to the model and the display log \<open>chat_history\<close> of (role, text) pairs.
  Both are set together, by the initialisation and by the clear button, so the storage of a
  session is either empty (\<open>None\<close>) or holds both.
\<close>

record session =
  messages :: "pyval list"
  chat_history :: "(pystr \<times> pystr) list"




section \<open>The tool registry\<close>

datatype py_error = AttributeError

text \<open>
  A call of \<open>fetch_movie_metadata\<close> with the argument the loop passes, which is the
  optional \<open>input\<close> field of the step. The first statement of the function calls
  \<open>preference_keyword.lower()\<close>; on \<open>None\<close> that raises \<open>AttributeError\<close>.
\<close>

definition call_fetch_movie_metadata :: "pystr option \<Rightarrow> py_error + pystr" where
  "call_fetch_movie_metadata arg =
     (case arg of None \<Rightarrow> Inl AttributeError | Some k \<Rightarrow> Inr (fetch_movie_metadata k))"

definition available_tools :: "(pystr \<times> (pystr option \<Rightarrow> py_error + pystr)) list" where
  "available_tools =
     [(''fetch_movie_metadata'', call_fetch_movie_metadata),
      (''get_movie_data'', call_fetch_movie_metadata)]"

text \<open>
  The test \<open>tool_name in available_tools\<close> and the lookup \<open>available_tools[tool_name]\<close>; the
  name is the optional \<open>tool\<close> field, and \<open>None\<close> is a key of no entry.
\<close>

definition lookup_tool :: "pystr option \<Rightarrow> (pystr option \<Rightarrow> py_error + pystr) option" where
  "lookup_tool tool_name = (case tool_name of None \<Rightarrow> None | Some n \<Rightarrow> map_of available_tools n)"

definition opt_val :: "pystr option \<Rightarrow> pyval" where
  "opt_val v = (case v of None \<Rightarrow> PNone | Some s \<Rightarrow> PStr s)"

definition observation :: "pystr option \<Rightarrow> pystr option \<Rightarrow> pystr \<Rightarrow> pyval" where
  "observation tool_name tool_input tool_response =
     PDict [(''step'', PStr ''OBSERVE''), (''tool'', opt_val tool_name),
            (''input'', opt_val tool_input), (''output'', PStr tool_response)]"

definition tool_not_found :: "pystr option \<Rightarrow> pystr" where
  "tool_not_found tool_name = ''Error: Tool '' @ fmt_opt tool_name @ '' not found.''"

definition run_tool :: "pystr option \<Rightarrow> pystr option \<Rightarrow> py_error + pystr" where
  "run_tool tool_name tool_input =
     (case lookup_tool tool_name of
        Some f \<Rightarrow> f tool_input
      | None \<Rightarrow> Inr (tool_not_found tool_name))"

section \<open>The agent loop\<close>

text \<open>The four pictograms that start the display entries (U+1F525, U+1F9E0, U+1F6E0 U+FE0F, U+1F916).\<close>

definition fire :: pystr where
  "fire = [CHR 0xF0, CHR 0x9F, CHR 0x94, CHR 0xA5]"

definition brain :: pystr where
  "brain = [CHR 0xF0, CHR 0x9F, CHR 0xA7, CHR 0xA0]"

definition tools_sign :: pystr where
  "tools_sign = [CHR 0xF0, CHR 0x9F, CHR 0x9B, CHR 0xA0, CHR 0xEF, CHR 0xB8, CHR 0x8F]"

definition robot :: pystr where
  "robot = [CHR 0xF0, CHR 0x9F, CHR 0xA4, CHR 0x96]"

definition add_message :: "pyval \<Rightarrow> session \<Rightarrow> session" where
  "add_message m st = st\<lparr>messages := messages st @ [m]\<rparr>"

definition add_history :: "pystr \<Rightarrow> session \<Rightarrow> session" where
  "add_history text st = st\<lparr>chat_history := chat_history st @ [(''assistant'', text)]\<rparr>"

datatype control = Continue | Break

text \<open>
  The body of \<open>while True\<close> from the answer of the model on: the result is the session as
  the body leaves it and whether the body ends in \<open>continue\<close> (or falls off its end, which
  starts the next round as well) or in \<open>break\<close>; an exception leaves the loop with the
  session as it is at the raise.
\<close>

definition loop_body :: "session \<Rightarrow> response \<Rightarrow> (py_error \<times> session) + (control \<times> session)" where
  "loop_body st r =
     (let p = parsed r;
          st1 = add_message (msg ''assistant'' (raw_result r)) st
      in if step p = ''START'' then
           Inr (Continue, add_history (fire @ '' MRE Initialized: '' @ fmt_opt (content p)) st1)
         else if step p = ''PLAN'' then
           Inr (Continue, add_history (brain @ '' Planning: '' @ fmt_opt (content p)) st1)
         else if step p = ''TOOL'' then
           (let tool_name = tool p;
                tool_input = input p;
                st2 = add_history (tools_sign @ '' Fetching data using keyword: '' @ fmt_opt tool_input) st1
            in case run_tool tool_name tool_input of
                 Inl e \<Rightarrow> Inl (e, st2)
               | Inr tool_response \<Rightarrow>
                   Inr (Continue,
                        add_message (msg ''developer''
                          (json_dumps (observation tool_name tool_input tool_response))) st2))
         else if step p = ''OUTPUT'' then
           Inr (Break, add_history (robot @ '' **MRE Recommendation:** '' @ fmt_opt (content p)) st1)
         else Inr (Continue, st1))"

text \<open>
  The loop itself. It has no bound on its rounds, so it is a partial function: \<open>None\<close> is
  the loop that never leaves, \<open>Some (Inr st)\<close> the loop left by \<open>break\<close> and
  \<open>Some (Inl (e, st))\<close> the loop left by the exception \<open>e\<close>.
\<close>

partial_function (option) agent_loop :: "llm \<Rightarrow> session \<Rightarrow> ((py_error \<times> session) + session) option" where
  "agent_loop model st =
     (case loop_body st (model (messages st)) of
        Inl err \<Rightarrow> Some (Inl err)
      | Inr (c, st') \<Rightarrow> (case c of Break \<Rightarrow> Some (Inr st') | Continue \<Rightarrow> agent_loop model st'))"

text \<open>A user turn: a query that is absent or empty starts nothing.\<close>

definition user_turn :: "llm \<Rightarrow> pystr option \<Rightarrow> session \<Rightarrow> ((py_error \<times> session) + session) option" where
  "user_turn model user_query st =
     (case user_query of
        None \<Rightarrow> Some (Inr st)
      | Some q \<Rightarrow>
          if q = [] then Some (Inr st)
          else agent_loop model
                 (st\<lparr>messages := messages st @ [msg ''user'' q],
                     chat_history := chat_history st @ [(''user'', q)]\<rparr>))"

section \<open>Notions the properties speak of\<close>

text \<open>
  The fallback as the specification words it, for comparison with \<open>find_movies\<close>: a
  category is accepted when its key occurs in the normalised keyword or the normalised
  keyword occurs in its key.
\<close>

definition find_movies_spec :: "pystr \<Rightarrow> pyval list option" where
  "find_movies_spec preference_keyword =
     (let keyword = py_strip (py_lower preference_keyword);
          movies = map_of mock_movies keyword
      in if \<not> truthy movies
         then (case find (\<lambda>(key, value). py_in key keyword \<or> py_in keyword key) mock_movies of
                 Some (key, value) \<Rightarrow> Some value
               | None \<Rightarrow> movies)
         else movies)"

definition fetch_movie_metadata_spec :: "pystr \<Rightarrow> pystr" where
  "fetch_movie_metadata_spec preference_keyword =
     (let movies = find_movies_spec preference_keyword
      in if truthy movies
         then (case movies of Some ms \<Rightarrow> json_dumps (PList ms) | None \<Rightarrow> json_dumps PNone)
         else not_found_text preference_keyword)"

text \<open>
  A text that a JSON reader accepts as an array starts, after JSON white space, with an
  opening bracket.
\<close>

definition json_whitespace :: "char \<Rightarrow> bool" where
  "json_whitespace c = (c = CHR '' '' \<or> c = CHR 0x09 \<or> c = CHR 0x0A \<or> c = CHR 0x0D)"

definition json_array_text :: "pystr \<Rightarrow> bool" where
  "json_array_text s = (case dropWhile json_whitespace s of [] \<Rightarrow> False | c # cs \<Rightarrow> c = CHR ''['')"

text \<open>
  An entry of the array the tool returns: a dictionary with exactly the keys \<open>title\<close>,
  \<open>genre\<close>, \<open>imdb_rating\<close> and \<open>runtime_mins\<close> in this order, two strings, a float between
  0 and 10 and a positive integer.
\<close>

fun movie_entry :: "pyval \<Rightarrow> bool" where
  "movie_entry (PDict [(k1, PStr t), (k2, PStr g), (k3, PFloat m d), (k4, PInt n)]) =
     (k1 = ''title'' \<and> k2 = ''genre'' \<and> k3 = ''imdb_rating'' \<and> k4 = ''runtime_mins''
      \<and> 0 \<le> m \<and> m \<le> 10 * 10 ^ d \<and> 0 < n)"
| "movie_entry v = False"

fun dict_keys :: "pyval \<Rightarrow> pystr list" where
  "dict_keys (PDict kvs) = map fst kvs"
| "dict_keys v = []"

definition lacks_key :: "pystr \<Rightarrow> pyval \<Rightarrow> bool" where
  "lacks_key k v = (k \<notin> set (dict_keys v))"

text \<open>
  Three answers of the model used below. Each is a value of the schema: a \<open>TOOL\<close> step
  that names the registered tool and leaves \<open>input\<close> out, a \<open>TOOL\<close> step that names a tool
  the registry does not hold, and a step of the kind \<open>OBSERVE\<close>.
\<close>

definition null_input_step :: response where
  \<open>null_input_step =
     \<lparr>raw_result = ''{"step": "TOOL", "tool": "fetch_movie_metadata", "input": null}'',
      parsed = \<lparr>step = ''TOOL'', content = None,
                tool = Some ''fetch_movie_metadata'', input = None\<rparr>\<rparr>\<close>

definition unknown_tool_step :: response where
  \<open>unknown_tool_step =
     \<lparr>raw_result = ''{"step": "TOOL", "tool": "search_web", "input": "horror"}'',
      parsed = \<lparr>step = ''TOOL'', content = None,
                tool = Some ''search_web'', input = Some ''horror''\<rparr>\<rparr>\<close>

definition observe_step :: response where
  \<open>observe_step =
     \<lparr>raw_result = ''{"step": "OBSERVE", "content": "noted"}'',
      parsed = \<lparr>step = ''OBSERVE'', content = Some ''noted'', tool = None, input = None\<rparr>\<rparr>\<close>

text \<open>
  A final answer of the model, a model that gives a chosen answer to its first call of a
  turn (the transcript then holds the system message and the user message) and the final
  answer to every later call, and the session at the start of the loop of a first turn
  with the query \<open>horror\<close>.
\<close>

definition output_step :: response where
  \<open>output_step =
     \<lparr>raw_result = ''{"step": "OUTPUT", "content": "Watch Mountain Commandos."}'',
      parsed = \<lparr>step = ''OUTPUT'', content = Some ''Watch Mountain Commandos.'',
                tool = None, input = None\<rparr>\<rparr>\<close>

definition first_then_output :: "response \<Rightarrow> llm" where
  "first_then_output r transcript = (if length transcript = 2 then r else output_step)"

definition asked :: session where
  "asked = \<lparr>messages = [msg ''system'' SYSTEM_PROMPT, msg ''user'' ''horror''],
            chat_history = [(''user'', ''horror'')]\<rparr>"

section \<open>Facts about the tool\<close>

lemma find_movies_lower_strip: "find_movies k = find_movies_with lower_strip k"
  by (simp add: find_movies_def find_movies_with_def lower_strip_def)

lemma fetch_movie_metadata_lower_strip:
  "fetch_movie_metadata k = fetch_movie_metadata_with lower_strip k"
  by (simp add: fetch_movie_metadata_def fetch_movie_metadata_with_def find_movies_lower_strip)

lemma tables_movie_entry:
  "list_all movie_entry sci_fi_movies"
  "list_all movie_entry action_movies"
  "list_all movie_entry comedy_movies"
  by (simp_all add: sci_fi_movies_def action_movies_def comedy_movies_def movie_def)

lemma tables_not_empty:
  "sci_fi_movies \<noteq> []" "action_movies \<noteq> []" "comedy_movies \<noteq> []"
  by (simp_all add: sci_fi_movies_def action_movies_def comedy_movies_def)

lemma not_found_text_not_array: "\<not> json_array_text (not_found_text k)"
  by (simp add: json_array_text_def not_found_text_def warning_sign_def json_whitespace_def)

lemma json_dumps_list_array: "json_array_text (json_dumps (PList xs))"
  by (simp add: json_array_text_def json_whitespace_def)

lemma mock_movies_rows:
  "(key, ms) \<in> set mock_movies \<Longrightarrow> ms \<noteq> [] \<and> list_all movie_entry ms"
  using tables_not_empty tables_movie_entry by (auto simp: mock_movies_def)

lemma mock_movies_truthy:
  "truthy (map_of mock_movies kw) \<longleftrightarrow> map_of mock_movies kw \<noteq> None"
proof (cases "map_of mock_movies kw")
  case None
  then show ?thesis by (simp add: truthy_def)
next
  case (Some ms)
  then have "(kw, ms) \<in> set mock_movies" by (rule map_of_SomeD)
  then have "ms \<noteq> []" using mock_movies_rows by blast
  with Some show ?thesis by (simp add: truthy_def)
qed

lemma find_movies_with_exact:
  "map_of mock_movies (normalise k) = Some ms \<Longrightarrow> find_movies_with normalise k = Some ms"
  using mock_movies_truthy [of "normalise k"]
  by (simp add: find_movies_with_def)

lemma find_movies_with_scan:
  "map_of mock_movies (normalise k) = None \<Longrightarrow>
   find_movies_with normalise k =
     map_option snd (find (\<lambda>(key, value). py_in key (normalise k) \<or> py_in k key) mock_movies)"
  using mock_movies_truthy [of "normalise k"]
  by (simp add: find_movies_with_def split: option.splits)

lemma find_movies_with_row:
  assumes "find_movies_with normalise k = Some ms"
  shows "\<exists>key. (key, ms) \<in> set mock_movies"
proof (cases "map_of mock_movies (normalise k)")
  case (Some ms')
  with assms have "ms' = ms" by (simp add: find_movies_with_exact)
  with Some have "(normalise k, ms) \<in> set mock_movies" by (simp add: map_of_SomeD)
  then show ?thesis ..
next
  case None
  with assms obtain x where
    x: "find (\<lambda>(key, value). py_in key (normalise k) \<or> py_in k key) mock_movies = Some x"
       "snd x = ms"
    by (auto simp: find_movies_with_scan)
  from x(1) have "x \<in> set mock_movies"
    unfolding find_Some_iff using nth_mem by metis
  with x(2) have "(fst x, ms) \<in> set mock_movies" by auto
  then show ?thesis ..
qed

lemma find_movies_with_Some:
  assumes "\<exists>key \<in> set (map fst mock_movies).
             normalise k = key \<or> py_in key (normalise k) \<or> py_in k key"
  shows "\<exists>ms. find_movies_with normalise k = Some ms"
proof (cases "map_of mock_movies (normalise k)")
  case (Some ms)
  then show ?thesis by (simp add: find_movies_with_exact)
next
  case None
  from assms obtain key where key: "key \<in> fst ` set mock_movies"
    and test: "normalise k = key \<or> py_in key (normalise k) \<or> py_in k key" by auto
  from None have "normalise k \<notin> fst ` set mock_movies"
    by (simp add: map_of_eq_None_iff)
  with key test have test': "py_in key (normalise k) \<or> py_in k key" by auto
  from key obtain ms where row: "(key, ms) \<in> set mock_movies" by auto
  have "find (\<lambda>(key, value). py_in key (normalise k) \<or> py_in k key) mock_movies \<noteq> None"
  proof
    assume "find (\<lambda>(key, value). py_in key (normalise k) \<or> py_in k key) mock_movies = None"
    then have "\<not> (\<lambda>(key, value). py_in key (normalise k) \<or> py_in k key) (key, ms)"
      using row unfolding find_None_iff by blast
    with test' show False by simp
  qed
  with None show ?thesis
    by (auto simp: find_movies_with_scan)
qed

lemma find_movies_with_None:
  assumes "\<forall>key \<in> set (map fst mock_movies).
             normalise k \<noteq> key \<and> \<not> py_in key (normalise k) \<and> \<not> py_in k key"
  shows "find_movies_with normalise k = None"
proof -
  from assms have "normalise k \<notin> fst ` set mock_movies" by auto
  then have none: "map_of mock_movies (normalise k) = None"
    by (simp add: map_of_eq_None_iff)
  from assms have "\<forall>x \<in> set mock_movies. \<not> (py_in (fst x) (normalise k) \<or> py_in k (fst x))"
    by auto
  then have "find (\<lambda>(key, value). py_in key (normalise k) \<or> py_in k key) mock_movies = None"
    unfolding find_None_iff by (auto simp: case_prod_beta)
  with none show ?thesis
    by (simp add: find_movies_with_scan)
qed

text \<open>
  A text that occurs in a category key has no upper-case letter and no white space, so
  \<open>lower_strip\<close> leaves it as it is: where the normalised keyword occurs in no key, the
  keyword as passed occurs in none either.
\<close>

lemma key_chars_plain:
  assumes "key \<in> set (map fst mock_movies)" and "c \<in> set key"
  shows "lower_char c = c \<and> \<not> py_isspace c"
  using assms
  by (auto simp: mock_movies_def lower_char_def py_isspace_def)

lemma lower_strip_plain:
  assumes "\<forall>c \<in> set s. lower_char c = c \<and> \<not> py_isspace c"
  shows "lower_strip s = s"
proof -
  from assms have low: "py_lower s = s"
    by (simp add: py_lower_def map_idI)
  from assms have lead: "dropWhile py_isspace s = s"
    by (cases s) simp_all
  from assms have "\<forall>c \<in> set (rev s). \<not> py_isspace c" by simp
  then have trail: "dropWhile py_isspace (rev s) = rev s"
    by (cases "rev s") simp_all
  show ?thesis
    by (simp add: lower_strip_def low py_strip_def lead trail)
qed

lemma lower_strip_part_of_key:
  assumes "key \<in> set (map fst mock_movies)" and "py_in k key"
  shows "lower_strip k = k"
proof (rule lower_strip_plain, rule ballI)
  fix c assume "c \<in> set k"
  moreover from assms(2) have "set k \<subseteq> set key"
    by (auto simp: py_in_def sublist_def)
  ultimately have "c \<in> set key" by blast
  with assms(1) show "lower_char c = c \<and> \<not> py_isspace c"
    by (rule key_chars_plain)
qed

lemma no_match_lower_strip:
  assumes "\<forall>key \<in> set (map fst mock_movies). \<not> py_in (lower_strip k) key"
  shows "\<forall>key \<in> set (map fst mock_movies). \<not> py_in k key"
  using assms lower_strip_part_of_key by metis

lemma normalise_SCI: "py_strip (py_lower ''SCI'') = ''sci''"
  by code_simp

lemma find_movies_SCI: "find_movies ''SCI'' = None"
  by code_simp

lemma find_movies_spec_SCI: "find_movies_spec ''SCI'' = Some sci_fi_movies"
  by code_simp

lemma find_movies_sci_fi: "find_movies ''sci-fi'' = Some sci_fi_movies"
  by code_simp

lemma find_movies_action: "find_movies ''action'' = Some action_movies"
  by code_simp

lemma find_movies_horror: "find_movies ''horror'' = None"
  by code_simp

subsection \<open>The fallback of the keyword search\<close>

text \<open>
  Claim C2: \<open>fetch_movie_metadata\<close> normalises the keyword, looks up an exact category and on
  a miss accepts the first category whose key is a substring of the normalised keyword or
  whose key contains the normalised keyword; only when no category matches in either
  direction does it return the not-found string.

  The code tests the second direction with the keyword as it was passed, not with the
  normalised one (\<open>preference_keyword in key\<close>, next to \<open>key in keyword\<close>). For the keyword
  \<open>SCI\<close> the normalised keyword \<open>sci\<close> occurs in the key \<open>sci-fi\<close>, and the function as the
  claim words it returns the science-fiction list, yet the code returns the not-found
  string.
\<close>

theorem fetch_movie_metadata_upper_case_miss:
  "fetch_movie_metadata ''SCI'' = not_found_text ''SCI''
   \<and> py_in (py_strip (py_lower ''SCI'')) ''sci-fi''
   \<and> fetch_movie_metadata_spec ''SCI'' = json_dumps (PList sci_fi_movies)"
proof (intro conjI)
  show "fetch_movie_metadata ''SCI'' = not_found_text ''SCI''"
    by (simp add: fetch_movie_metadata_def find_movies_SCI truthy_def)
  show "py_in (py_strip (py_lower ''SCI'')) ''sci-fi''"
    by (simp add: normalise_SCI py_in_def sublist_Cons_right)
  show "fetch_movie_metadata_spec ''SCI'' = json_dumps (PList sci_fi_movies)"
    by (simp add: fetch_movie_metadata_spec_def find_movies_spec_SCI truthy_def tables_not_empty
          del: json_dumps.simps)
qed

subsection \<open>The shape of the result\<close>

text \<open>
  Claim C6, as stated: on a match the result is a JSON array whose entries have the fields
  \<open>title\<close>, \<open>genre\<close>, \<open>rating\<close> and \<open>runtime_minutes\<close>. The entries the code returns carry the
  keys \<open>imdb_rating\<close> and \<open>runtime_mins\<close>; no entry has a key \<open>rating\<close> or \<open>runtime_minutes\<close>,
  as the result for the keyword \<open>action\<close> shows.
\<close>

theorem fetch_movie_metadata_action_keys:
  "fetch_movie_metadata ''action'' = json_dumps (PList action_movies)
   \<and> map dict_keys action_movies =
       [[''title'', ''genre'', ''imdb_rating'', ''runtime_mins''],
        [''title'', ''genre'', ''imdb_rating'', ''runtime_mins'']]
   \<and> list_all (lacks_key ''rating'') action_movies
   \<and> list_all (lacks_key ''runtime_minutes'') action_movies"
proof (intro conjI)
  show "fetch_movie_metadata ''action'' = json_dumps (PList action_movies)"
    by (simp add: fetch_movie_metadata_def find_movies_action truthy_def tables_not_empty
          del: json_dumps.simps)
qed (simp_all add: action_movies_def movie_def lacks_key_def)

text \<open>
  Claim C6, amended: for every keyword that matches a category by the test of the code
  (its normalised form is a category key or contains one, or the keyword as passed occurs
  in a category key) the result is the JSON serialisation of an array, one of the lists of
  the table, whose entries each have the fields \<open>title\<close>, \<open>genre\<close>, \<open>imdb_rating\<close> (a number
  from 0.0 to 10.0) and \<open>runtime_mins\<close> (a positive integer); for every keyword that
  matches no category in either direction (no key is the normalised keyword or occurs in
  it, and neither the normalised keyword nor the keyword as passed occurs in a key) the
  result is the not-found string, which does not start as a JSON array and so is not
  parseable as one. A keyword whose normalised form occurs in a category key while the
  keyword as passed does not is left out of both parts. The normalisation is a parameter:
  the statement holds whatever \<open>lower\<close> and \<open>strip\<close> of the library compute, on text of any
  script.
\<close>

theorem fetch_movie_metadata_shape:
  "((\<exists>key \<in> set (map fst mock_movies).
        normalise k = key \<or> py_in key (normalise k) \<or> py_in k key) \<longrightarrow>
      (\<exists>key ms. (key, ms) \<in> set mock_movies
         \<and> fetch_movie_metadata_with normalise k = json_dumps (PList ms)
         \<and> ms \<noteq> [] \<and> list_all movie_entry ms
         \<and> json_array_text (fetch_movie_metadata_with normalise k)))
   \<and> ((\<forall>key \<in> set (map fst mock_movies).
          normalise k \<noteq> key \<and> \<not> py_in key (normalise k)
          \<and> \<not> py_in (normalise k) key \<and> \<not> py_in k key) \<longrightarrow>
        fetch_movie_metadata_with normalise k = not_found_text k
        \<and> \<not> json_array_text (fetch_movie_metadata_with normalise k))"
proof (intro conjI impI)
  assume "\<exists>key \<in> set (map fst mock_movies).
            normalise k = key \<or> py_in key (normalise k) \<or> py_in k key"
  from find_movies_with_Some [of normalise k, OF this]
  obtain ms where some: "find_movies_with normalise k = Some ms" ..
  from find_movies_with_row [OF some]
  obtain key where row: "(key, ms) \<in> set mock_movies" ..
  from mock_movies_rows [OF row] have ok: "ms \<noteq> []" "list_all movie_entry ms"
    by simp_all
  from some ok(1) have eq: "fetch_movie_metadata_with normalise k = json_dumps (PList ms)"
    by (simp add: fetch_movie_metadata_with_def truthy_def del: json_dumps.simps)
  have "json_array_text (fetch_movie_metadata_with normalise k)"
    unfolding eq by (rule json_dumps_list_array)
  with row eq ok
  show "\<exists>key ms. (key, ms) \<in> set mock_movies
         \<and> fetch_movie_metadata_with normalise k = json_dumps (PList ms)
         \<and> ms \<noteq> [] \<and> list_all movie_entry ms
         \<and> json_array_text (fetch_movie_metadata_with normalise k)"
    by blast
next
  assume "\<forall>key \<in> set (map fst mock_movies).
          normalise k \<noteq> key \<and> \<not> py_in key (normalise k)
          \<and> \<not> py_in (normalise k) key \<and> \<not> py_in k key"
  then have "find_movies_with normalise k = None"
    by (intro find_movies_with_None [of normalise k]) blast
  then show nf: "fetch_movie_metadata_with normalise k = not_found_text k"
    by (simp add: fetch_movie_metadata_with_def truthy_def)
  show "\<not> json_array_text (fetch_movie_metadata_with normalise k)"
    unfolding nf by (rule not_found_text_not_array)
qed

lemma lower_strip_padded: "lower_strip '' Action Movies '' = ''action movies''"
  by code_simp

lemma lower_strip_horror: "lower_strip ''horror'' = ''horror''"
  by code_simp

theorem fetch_movie_metadata_shape_witness:
  "map fst mock_movies = [''sci-fi'', ''action'', ''comedy'']
   \<and> py_in ''action'' (lower_strip '' Action Movies '')
   \<and> (\<exists>key ms. (key, ms) \<in> set mock_movies
         \<and> fetch_movie_metadata_with lower_strip '' Action Movies '' = json_dumps (PList ms)
         \<and> ms \<noteq> [] \<and> list_all movie_entry ms
         \<and> json_array_text (fetch_movie_metadata_with lower_strip '' Action Movies ''))
   \<and> lower_strip ''horror'' = ''horror''
   \<and> \<not> py_in ''sci-fi'' ''horror'' \<and> \<not> py_in ''horror'' ''sci-fi''
   \<and> \<not> py_in ''action'' ''horror'' \<and> \<not> py_in ''horror'' ''action''
   \<and> \<not> py_in ''comedy'' ''horror'' \<and> \<not> py_in ''horror'' ''comedy''
   \<and> fetch_movie_metadata_with lower_strip ''horror'' = not_found_text ''horror''
   \<and> \<not> json_array_text (fetch_movie_metadata_with lower_strip ''horror'')"
proof -
  have keys: "map fst mock_movies = [''sci-fi'', ''action'', ''comedy'']"
    by (simp add: mock_movies_def)
  have part: "py_in ''action'' (lower_strip '' Action Movies '')"
    unfolding lower_strip_padded
    by (simp add: py_in_def sublist_Cons_right)
  have apart:
    "\<not> py_in ''sci-fi'' ''horror''" "\<not> py_in ''horror'' ''sci-fi''"
    "\<not> py_in ''action'' ''horror''" "\<not> py_in ''horror'' ''action''"
    "\<not> py_in ''comedy'' ''horror''" "\<not> py_in ''horror'' ''comedy''"
    by (simp_all add: py_in_def sublist_Cons_right)
  from part have hit: "\<exists>key \<in> set (map fst mock_movies).
       lower_strip '' Action Movies '' = key \<or> py_in key (lower_strip '' Action Movies '')
       \<or> py_in '' Action Movies '' key"
    unfolding keys by simp
  from apart have miss: "\<forall>key \<in> set (map fst mock_movies).
          lower_strip ''horror'' \<noteq> key \<and> \<not> py_in key (lower_strip ''horror'')
          \<and> \<not> py_in (lower_strip ''horror'') key \<and> \<not> py_in ''horror'' key"
    unfolding keys lower_strip_horror by simp
  from fetch_movie_metadata_shape [of lower_strip "'' Action Movies ''"] hit
  have found: "\<exists>key ms. (key, ms) \<in> set mock_movies
         \<and> fetch_movie_metadata_with lower_strip '' Action Movies '' = json_dumps (PList ms)
         \<and> ms \<noteq> [] \<and> list_all movie_entry ms
         \<and> json_array_text (fetch_movie_metadata_with lower_strip '' Action Movies '')"
    by blast
  from fetch_movie_metadata_shape [of lower_strip "''horror''"] miss
  have lost: "fetch_movie_metadata_with lower_strip ''horror'' = not_found_text ''horror''
         \<and> \<not> json_array_text (fetch_movie_metadata_with lower_strip ''horror'')"
    by blast
  note lost1 = lost [THEN conjunct1] and lost2 = lost [THEN conjunct2]
  show ?thesis
    by (intro conjI) (rule keys part found lower_strip_horror apart lost1 lost2)+
qed

subsection \<open>Determinism\<close>

lemma for_loop_find:
  "for_loop items kw pk movies movies' \<longleftrightarrow>
     movies' = (case find (\<lambda>(key, value). py_in key kw \<or> py_in pk key) items of
                  Some (key, value) \<Rightarrow> Some value | None \<Rightarrow> movies)"
proof
  assume "for_loop items kw pk movies movies'"
  then show "movies' = (case find (\<lambda>(key, value). py_in key kw \<or> py_in pk key) items of
                  Some (key, value) \<Rightarrow> Some value | None \<Rightarrow> movies)"
    by (induction rule: for_loop.induct) auto
next
  show "movies' = (case find (\<lambda>(key, value). py_in key kw \<or> py_in pk key) items of
                  Some (key, value) \<Rightarrow> Some value | None \<Rightarrow> movies) \<Longrightarrow> for_loop items kw pk movies movies'"
  proof (induction items arbitrary: movies')
    case Nil
    then show ?case by (simp add: for_end)
  next
    case (Cons a items)
    obtain key v where a: "a = (key, v)" by (cases a)
    show ?case
    proof (cases "py_in key kw \<or> py_in pk key")
      case True
      with Cons.prems a show ?thesis by (simp add: for_break)
    next
      case False
      with Cons a show ?thesis by (auto intro: for_next)
    qed
  qed
qed

lemma for_loop_determ:
  "for_loop items kw pk movies m1 \<Longrightarrow> for_loop items kw pk movies m2 \<Longrightarrow> m1 = m2"
proof (induction arbitrary: m2 rule: for_loop.induct)
  case (for_end keyword preference_keyword movies)
  then show ?case by (auto elim: for_loop.cases)
next
  case (for_break key keyword preference_keyword "value" items movies)
  from for_break.prems for_break.hyps show ?case
    by (auto elim: for_loop.cases)
next
  case (for_next key keyword preference_keyword items movies movies' "value")
  from for_next.prems for_next.hyps(1) for_next.IH show ?case
    by (auto elim: for_loop.cases)
qed

lemma fetch_run_total: "fetch_run normalise k (fetch_movie_metadata_with normalise k)"
proof (cases "truthy (map_of mock_movies (normalise k))")
  case True
  then obtain ms where ms: "map_of mock_movies (normalise k) = Some ms" "ms \<noteq> []"
    by (auto simp: truthy_def split: option.splits)
  with True have "fetch_movie_metadata_with normalise k = json_dumps (PList ms)"
    by (simp add: fetch_movie_metadata_with_def find_movies_with_def Let_def del: json_dumps.simps)
  with ms show ?thesis
    using run_exact [of "normalise k" normalise k ms] by simp
next
  case False
  define movies where "movies = find_movies_with normalise k"
  have loop: "for_loop mock_movies (normalise k) k (map_of mock_movies (normalise k)) movies"
    using False by (simp add: for_loop_find movies_def find_movies_with_def Let_def)
  show ?thesis
  proof (cases "truthy movies")
    case True
    then obtain ms where ms: "movies = Some ms" "ms \<noteq> []"
      by (auto simp: truthy_def split: option.splits)
    then have "fetch_movie_metadata_with normalise k = json_dumps (PList ms)"
      using True by (simp add: fetch_movie_metadata_with_def movies_def [symmetric] del: json_dumps.simps)
    with run_fallback [of "normalise k" normalise k ms] False loop ms show ?thesis by simp
  next
    case nt: False
    then have "fetch_movie_metadata_with normalise k = not_found_text k"
      by (simp add: fetch_movie_metadata_with_def movies_def [symmetric])
    with run_not_found [of "normalise k" normalise k movies] False loop nt show ?thesis by simp
  qed
qed

lemma fetch_run_determ:
  assumes "fetch_run normalise k out1" and "fetch_run normalise k out2"
  shows "out1 = out2"
  using assms
  by (auto elim!: fetch_run.cases simp: truthy_def dest: for_loop_determ split: option.splits)


text \<open>
  Claim C8: \<open>fetch_movie_metadata\<close> is deterministic: two calls with the identical keyword
  return byte-identical strings. Stated on the runs of the function: every call returns,
  and any two runs on the same keyword return the same string. Several categories may
  pass the test of the fallback; the run is unique because the scan follows the order of
  the dictionary and leaves at the first category that passes.
\<close>

theorem fetch_movie_metadata_deterministic:
  "fetch_run normalise k (fetch_movie_metadata_with normalise k)
   \<and> (fetch_run normalise k out1 \<and> fetch_run normalise k out2 \<longrightarrow> out1 = out2)"
  using fetch_run_total [of normalise k] fetch_run_determ [of normalise k out1 out2]
  by blast

lemma lower_strip_two_categories: "lower_strip ''action comedy'' = ''action comedy''"
  by code_simp

lemma fetch_run_two_categories:
  "fetch_run lower_strip ''action comedy'' (json_dumps (PList action_movies))"
proof (rule run_fallback [of "''action comedy''"])
  show "''action comedy'' = lower_strip ''action comedy''"
    by (simp add: lower_strip_two_categories)
  show "\<not> truthy (map_of mock_movies ''action comedy'')"
    by (simp add: mock_movies_def truthy_def)
  show "for_loop mock_movies ''action comedy'' ''action comedy''
          (map_of mock_movies ''action comedy'') (Some action_movies)"
    unfolding mock_movies_def
    by (rule for_next, simp add: py_in_def sublist_Cons_right)
       (rule for_break, simp add: py_in_def sublist_Cons_right)
  show "action_movies \<noteq> []"
    by (rule tables_not_empty)
qed

theorem fetch_movie_metadata_deterministic_witness:
  "py_in ''action'' (lower_strip ''action comedy'')
   \<and> py_in ''comedy'' (lower_strip ''action comedy'')
   \<and> fetch_run lower_strip ''action comedy'' (json_dumps (PList action_movies))
   \<and> fetch_run lower_strip ''action comedy'' (fetch_movie_metadata ''action comedy'')
   \<and> json_dumps (PList action_movies) = fetch_movie_metadata ''action comedy''"
proof -
  have both: "py_in ''action'' (lower_strip ''action comedy'')"
    "py_in ''comedy'' (lower_strip ''action comedy'')"
    unfolding lower_strip_two_categories
    by (simp_all add: py_in_def sublist_Cons_right)
  from fetch_movie_metadata_deterministic
         [of lower_strip "''action comedy''" "json_dumps (PList action_movies)"
             "fetch_movie_metadata_with lower_strip ''action comedy''"]
       fetch_run_two_categories
  have "fetch_run lower_strip ''action comedy'' (fetch_movie_metadata_with lower_strip ''action comedy'')
        \<and> json_dumps (PList action_movies) = fetch_movie_metadata_with lower_strip ''action comedy''"
    by blast
  with both fetch_run_two_categories show ?thesis
    by (simp only: fetch_movie_metadata_lower_strip)
qed

section \<open>Facts about the registry and the loop body\<close>

lemma messages_add_message: "messages (add_message m st) = messages st @ [m]"
  by (simp add: add_message_def)

lemma messages_add_history: "messages (add_history t st) = messages st"
  by (simp add: add_history_def)

lemma chat_history_add_message: "chat_history (add_message m st) = chat_history st"
  by (simp add: add_message_def)

lemma chat_history_add_history:
  "chat_history (add_history t st) = chat_history st @ [(''assistant'', t)]"
  by (simp add: add_history_def)

lemmas session_adds =
  messages_add_message messages_add_history chat_history_add_message chat_history_add_history

lemma run_tool_registered:
  "run_tool (Some ''fetch_movie_metadata'') inp = call_fetch_movie_metadata inp"
  "run_tool (Some ''get_movie_data'') inp = call_fetch_movie_metadata inp"
  by (simp_all add: run_tool_def lookup_tool_def available_tools_def)

lemma lookup_tool_None_iff:
  "lookup_tool name = None \<longleftrightarrow>
     (\<forall>t. name = Some t \<longrightarrow> t \<noteq> ''fetch_movie_metadata'' \<and> t \<noteq> ''get_movie_data'')"
  by (cases name) (auto simp: lookup_tool_def available_tools_def)

lemma run_tool_unregistered:
  "lookup_tool name = None \<Longrightarrow> run_tool name inp = Inr (tool_not_found name)"
  by (simp add: run_tool_def)

text \<open>The only call that raises: a registered tool with no input.\<close>

lemma run_tool_raises_iff:
  "(\<exists>e. run_tool name inp = Inl e) \<longleftrightarrow> lookup_tool name \<noteq> None \<and> inp = None"
  by (cases name; cases inp)
     (auto simp: run_tool_def lookup_tool_def available_tools_def call_fetch_movie_metadata_def)

text \<open>The body ends in \<open>break\<close> exactly on an \<open>OUTPUT\<close> step.\<close>

lemma loop_body_Break_iff:
  "(\<exists>st'. loop_body st r = Inr (Break, st')) \<longleftrightarrow> step (parsed r) = ''OUTPUT''"
  by (auto simp: loop_body_def Let_def split: sum.splits)

text \<open>The body raises exactly on a \<open>TOOL\<close> step whose tool call raises.\<close>

lemma loop_body_raises_iff:
  "(\<exists>err. loop_body st r = Inl err) \<longleftrightarrow>
     step (parsed r) = ''TOOL'' \<and> lookup_tool (tool (parsed r)) \<noteq> None \<and> input (parsed r) = None"
proof -
  have "(\<exists>err. loop_body st r = Inl err) \<longleftrightarrow>
          step (parsed r) = ''TOOL'' \<and> (\<exists>e. run_tool (tool (parsed r)) (input (parsed r)) = Inl e)"
    by (auto simp: loop_body_def Let_def split: sum.splits)
  then show ?thesis
    by (simp only: run_tool_raises_iff)
qed

text \<open>What a body that does not raise appends to the transcript.\<close>

lemma loop_body_transcript:
  "loop_body st r = Inr (c, st') \<Longrightarrow>
     (step (parsed r) \<noteq> ''TOOL'' \<longrightarrow> messages st' = messages st @ [msg ''assistant'' (raw_result r)])
     \<and> (step (parsed r) = ''TOOL'' \<longrightarrow>
          (\<exists>out. run_tool (tool (parsed r)) (input (parsed r)) = Inr out
             \<and> messages st' = messages st @
                 [msg ''assistant'' (raw_result r),
                  msg ''developer''
                    (json_dumps (observation (tool (parsed r)) (input (parsed r)) out))]))"
  by (auto simp: loop_body_def Let_def session_adds split: sum.splits if_splits)

lemma loop_body_null_input:
  "loop_body st null_input_step =
     Inl (AttributeError,
          add_history (tools_sign @ '' Fetching data using keyword: None'')
            (add_message (msg ''assistant'' (raw_result null_input_step)) st))"
  by (simp add: loop_body_def null_input_step_def run_tool_registered
        call_fetch_movie_metadata_def fmt_opt_def)

text \<open>The JSON text of an observation, and of the strings of the examples.\<close>

lemma json_str_keys:
  \<open>json_str ''step'' = ''"step"''\<close>
  \<open>json_str ''tool'' = ''"tool"''\<close>
  \<open>json_str ''input'' = ''"input"''\<close>
  \<open>json_str ''output'' = ''"output"''\<close>
  \<open>json_str ''OBSERVE'' = ''"OBSERVE"''\<close>
  by code_simp+

lemma json_str_search_web:
  \<open>json_str ''search_web'' = ''"search_web"''\<close>
  \<open>json_str ''horror'' = ''"horror"''\<close>
  \<open>json_str ''Error: Tool search_web not found.'' = ''"Error: Tool search_web not found."''\<close>
  by code_simp+

lemma json_dumps_observation:
  \<open>json_dumps (PDict [(''step'', PStr ''OBSERVE''), (''tool'', PStr t),
       (''input'', (case inp of None \<Rightarrow> PNone | Some s \<Rightarrow> PStr s)), (''output'', PStr out)])
   = ''{"step": "OBSERVE", "tool": '' @ json_str t @ '', "input": ''
       @ (case inp of None \<Rightarrow> ''null'' | Some s \<Rightarrow> json_str s)
       @ '', "output": '' @ json_str out @ ''}''\<close>
  by (cases inp) (simp_all add: json_str_keys)

section \<open>Facts about the loop\<close>

lemma agent_loop_Continue:
  "loop_body st (model (messages st)) = Inr (Continue, st') \<Longrightarrow>
     agent_loop model st = agent_loop model st'"
  by (subst agent_loop.simps) simp

lemma agent_loop_Break:
  "loop_body st (model (messages st)) = Inr (Break, st') \<Longrightarrow>
     agent_loop model st = Some (Inr st')"
  by (subst agent_loop.simps) simp

lemma agent_loop_raise:
  "loop_body st (model (messages st)) = Inl err \<Longrightarrow> agent_loop model st = Some (Inl err)"
  by (subst agent_loop.simps) simp

text \<open>
  A loop that is left was left in some round, by a \<open>break\<close> of the body or by an exception
  of the body.
\<close>

lemma agent_loop_left:
  "agent_loop model st = Some res \<Longrightarrow>
     (case res of
        Inr st' \<Rightarrow> \<exists>st0. loop_body st0 (model (messages st0)) = Inr (Break, st')
      | Inl err \<Rightarrow> \<exists>st0. loop_body st0 (model (messages st0)) = Inl err)"
proof (induction model st res rule: agent_loop.raw_induct[rotated 1, consumes 1])
  case (1 loop model st res)
  show ?case
  proof (cases "loop_body st (model (messages st))")
    case (Inl err)
    with 1(2) show ?thesis by auto
  next
    case (Inr cs)
    obtain c st' where cs: "cs = (c, st')" by (cases cs)
    show ?thesis
    proof (cases c)
      case Continue
      with 1 Inr cs show ?thesis by auto
    next
      case Break
      with 1(2) Inr cs show ?thesis by auto
    qed
  qed
qed

text \<open>A loop left by \<open>break\<close> was left on an \<open>OUTPUT\<close> step of the model.\<close>

lemma agent_loop_break_on_OUTPUT:
  assumes "agent_loop model st = Some (Inr st')"
  shows "\<exists>st0 :: session. step (parsed (model (messages st0))) = ''OUTPUT''"
proof -
  from agent_loop_left [OF assms]
  obtain st0 where "loop_body st0 (model (messages st0)) = Inr (Break, st')"
    by auto
  then have "step (parsed (model (messages st0))) = ''OUTPUT''"
    using loop_body_Break_iff by blast
  then show ?thesis by blast
qed

text \<open>
  After a round that ends in \<open>continue\<close> the loop is the next round: the model is called
  on the transcript the round has left, and the answer decides.
\<close>

lemma agent_loop_next:
  assumes "loop_body st (model (messages st)) = Inr (Continue, st')"
  shows "agent_loop model st =
     (case loop_body st' (model (messages st')) of
        Inl err \<Rightarrow> Some (Inl err)
      | Inr (c, st'') \<Rightarrow> (case c of Break \<Rightarrow> Some (Inr st'') | Continue \<Rightarrow> agent_loop model st''))"
proof -
  have "agent_loop model st = agent_loop model st'"
    using assms by (rule agent_loop_Continue)
  also have "\<dots> = (case loop_body st' (model (messages st')) of
        Inl err \<Rightarrow> Some (Inl err)
      | Inr (c, st'') \<Rightarrow> (case c of Break \<Rightarrow> Some (Inr st'') | Continue \<Rightarrow> agent_loop model st''))"
    by (subst agent_loop.simps) (rule refl)
  finally show ?thesis .
qed

text \<open>A loop whose every round ends in \<open>continue\<close> is never left.\<close>

lemma agent_loop_never_left:
  assumes "\<And>st :: session. \<exists>st'. loop_body st (model (messages st)) = Inr (Continue, st')"
  shows "agent_loop model st = None"
proof (rule ccontr)
  assume "agent_loop model st \<noteq> None"
  then obtain res where "agent_loop model st = Some res" by auto
  then have "\<not> (\<forall>st :: session. \<exists>st'. loop_body st (model (messages st)) = Inr (Continue, st'))"
  proof (induction model st res rule: agent_loop.raw_induct[rotated 1, consumes 1])
    case (1 loop model st res)
    show ?case
    proof
      assume all: "\<forall>st :: session. \<exists>st'. loop_body st (model (messages st)) = Inr (Continue, st')"
      then obtain st' where "loop_body st (model (messages st)) = Inr (Continue, st')" by blast
      with 1(2) have "loop model st' = Some res" by simp
      from 1(1) [OF this] all show False by blast
    qed
  qed
  with assms show False by blast
qed

lemma first_call:
  "first_then_output r (messages asked) = r"
  by (simp add: first_then_output_def asked_def)

section \<open>Properties of the agent loop\<close>

subsection \<open>Leaving the loop\<close>

text \<open>
  Claim C1: the loop ends a user turn if and only if the model returns a step of the kind
  \<open>OUTPUT\<close>; every other step kind makes the loop call the model again, so the loop is
  never left except through an \<open>OUTPUT\<close> step.

  The body ends in \<open>break\<close> exactly on \<open>OUTPUT\<close> (\<open>loop_body_Break_iff\<close>), and a loop
  left by \<open>break\<close> was left on such a step (\<open>agent_loop_break_on_OUTPUT\<close>). But a \<open>TOOL\<close>
  step that names the registered tool and carries no input does not make the loop call
  the model again: the tool call raises \<open>AttributeError\<close>, and the loop is left by the
  exception although no step was \<open>OUTPUT\<close>. Here the model answers every call with that
  step.
\<close>

theorem agent_loop_left_by_exception:
  "agent_loop (\<lambda>transcript. null_input_step) st =
     Some (Inl (AttributeError,
                add_history (tools_sign @ '' Fetching data using keyword: None'')
                  (add_message (msg ''assistant'' (raw_result null_input_step)) st)))
   \<and> step (parsed null_input_step) \<noteq> ''OUTPUT''"
proof
  show "agent_loop (\<lambda>transcript. null_input_step) st =
     Some (Inl (AttributeError,
                add_history (tools_sign @ '' Fetching data using keyword: None'')
                  (add_message (msg ''assistant'' (raw_result null_input_step)) st)))"
    by (rule agent_loop_raise) (rule loop_body_null_input)
  show "step (parsed null_input_step) \<noteq> ''OUTPUT''"
    by (simp add: null_input_step_def)
qed

subsection \<open>Steps with missing fields\<close>

text \<open>
  Claim C3: a \<open>TOOL\<close> step with a missing tool or a missing input does not crash the loop;
  a missing tool name takes the tool-not-found path, and a missing input is handled
  downstream without a fault.

  A missing tool name does take the tool-not-found path, whatever the input. But a missing
  input, passed to the registered tool, raises \<open>AttributeError\<close> in the first statement of
  \<open>fetch_movie_metadata\<close>, and the body passes the exception on.
\<close>

theorem tool_step_without_input_raises:
  "run_tool None inp = Inr ''Error: Tool None not found.''
   \<and> run_tool (tool (parsed null_input_step)) (input (parsed null_input_step)) = Inl AttributeError
   \<and> (\<exists>st'. loop_body st null_input_step = Inl (AttributeError, st'))"
proof (intro conjI)
  show "run_tool None inp = Inr ''Error: Tool None not found.''"
    by (simp add: run_tool_def lookup_tool_def tool_not_found_def fmt_opt_def)
  show "run_tool (tool (parsed null_input_step)) (input (parsed null_input_step)) = Inl AttributeError"
    by (simp add: null_input_step_def run_tool_registered call_fetch_movie_metadata_def)
  show "\<exists>st'. loop_body st null_input_step = Inl (AttributeError, st')"
    by (simp add: loop_body_null_input)
qed

subsection \<open>Growth of the transcript\<close>

text \<open>
  Claim C4: every round of the loop appends exactly one entry to the transcript when the
  step kind is not \<open>TOOL\<close> and exactly two when it is \<open>TOOL\<close>.

  A round that does not raise appends exactly these entries (\<open>loop_body_transcript\<close>). The
  round on a \<open>TOOL\<close> step without input for the registered tool is cut short by the
  exception of the tool call: the step kind is \<open>TOOL\<close> and the transcript has grown by one
  entry, not two.
\<close>

theorem tool_round_appends_one_entry:
  "step (parsed null_input_step) = ''TOOL''
   \<and> (case loop_body st null_input_step of
        Inl (e, st') \<Rightarrow> length (messages st') = length (messages st) + 1
      | Inr res \<Rightarrow> False)"
  by (simp add: loop_body_null_input session_adds) (simp add: null_input_step_def)

subsection \<open>An unregistered tool\<close>

text \<open>
  Claim C5: for every \<open>TOOL\<close> step that names a tool the registry does not hold, the
  dispatch never raises; it produces an error string that names the missing tool and
  contains the marker \<open>not found\<close>; that string is the output of the observation appended to
  the transcript, and the loop goes on.

  In the statement \<open>out\<close> is the error string, \<open>obs\<close> the observation dictionary, which
  holds \<open>out\<close> under the key \<open>output\<close>, and \<open>st'\<close> the session after the round: the
  transcript has gained the assistant message and then the developer message whose
  content is the JSON text of \<open>obs\<close>. The dispatch returns \<open>out\<close> for every input, also
  for a missing one. The body ends in \<open>continue\<close>, and the loop goes on with a call of the
  model on the transcript of \<open>st'\<close>: what the loop returns is what the round on that
  answer returns.
\<close>

theorem unregistered_tool_observed:
  assumes \<open>step (parsed r) = ''TOOL''\<close>
    and \<open>tool (parsed r) = Some t\<close>
    and \<open>t \<notin> set (map fst available_tools)\<close>
    and \<open>model (messages st) = r\<close>
    and \<open>out = ''Error: Tool '' @ t @ '' not found.''\<close>
    and \<open>obs = PDict [(''step'', PStr ''OBSERVE''), (''tool'', PStr t),
                      (''input'', (case input (parsed r) of None \<Rightarrow> PNone | Some s \<Rightarrow> PStr s)),
                      (''output'', PStr out)]\<close>
    and \<open>st' = \<lparr>messages = messages st @
                    [PDict [(''role'', PStr ''assistant''), (''content'', PStr (raw_result r))],
                     PDict [(''role'', PStr ''developer''), (''content'', PStr (json_dumps obs))]],
                 chat_history = chat_history st @
                    [(''assistant'', tools_sign @ '' Fetching data using keyword: ''
                        @ (case input (parsed r) of None \<Rightarrow> ''None'' | Some s \<Rightarrow> s))]\<rparr>\<close>
  shows \<open>run_tool (Some t) (input (parsed r)) = Inr out
         \<and> py_in t out \<and> py_in ''not found'' out
         \<and> json_dumps obs =
              ''{"step": "OBSERVE", "tool": '' @ json_str t @ '', "input": ''
              @ (case input (parsed r) of None \<Rightarrow> ''null'' | Some s \<Rightarrow> json_str s)
              @ '', "output": '' @ json_str out @ ''}''
         \<and> loop_body st r = Inr (Continue, st')
         \<and> agent_loop model st =
             (case loop_body st' (model (messages st')) of
                Inl err \<Rightarrow> Some (Inl err)
              | Inr (c, st'') \<Rightarrow>
                  (case c of Break \<Rightarrow> Some (Inr st'') | Continue \<Rightarrow> agent_loop model st''))\<close>
proof (intro conjI)
  from assms(3) have unreg: "lookup_tool (Some t) = None"
    by (simp add: lookup_tool_None_iff available_tools_def)
  show run: "run_tool (Some t) (input (parsed r)) = Inr out"
    by (simp add: run_tool_unregistered [OF unreg] tool_not_found_def fmt_opt_def assms(5))
  show "py_in t out"
    unfolding py_in_def assms(5) sublist_def by blast
  have "out = (''Error: Tool '' @ t @ '' '') @ ''not found'' @ ''.''"
    by (simp add: assms(5))
  then show "py_in ''not found'' out"
    unfolding py_in_def sublist_def by blast
  show \<open>json_dumps obs =
              ''{"step": "OBSERVE", "tool": '' @ json_str t @ '', "input": ''
              @ (case input (parsed r) of None \<Rightarrow> ''null'' | Some s \<Rightarrow> json_str s)
              @ '', "output": '' @ json_str out @ ''}''\<close>
    unfolding assms(6) by (rule json_dumps_observation)
  show body: "loop_body st r = Inr (Continue, st')"
    using assms(1,2) run
    by (simp add: loop_body_def Let_def assms(6,7) observation_def opt_val_def msg_def
          add_message_def add_history_def fmt_opt_def del: json_dumps.simps)
  from body assms(4) have "loop_body st (model (messages st)) = Inr (Continue, st')"
    by simp
  from agent_loop_next [of st model st', OF this]
  show "agent_loop model st =
             (case loop_body st' (model (messages st')) of
                Inl err \<Rightarrow> Some (Inl err)
              | Inr (c, st'') \<Rightarrow>
                  (case c of Break \<Rightarrow> Some (Inr st'') | Continue \<Rightarrow> agent_loop model st''))" .
qed

theorem unregistered_tool_observed_witness:
  \<open>step (parsed unknown_tool_step) = ''TOOL''
   \<and> tool (parsed unknown_tool_step) = Some ''search_web''
   \<and> ''search_web'' \<notin> set (map fst available_tools)
   \<and> first_then_output unknown_tool_step (messages asked) = unknown_tool_step
   \<and> run_tool (Some ''search_web'') (Some ''horror'') = Inr ''Error: Tool search_web not found.''
   \<and> py_in ''search_web'' ''Error: Tool search_web not found.''
   \<and> py_in ''not found'' ''Error: Tool search_web not found.''
   \<and> agent_loop (first_then_output unknown_tool_step) asked =
       Some (Inr \<lparr>messages =
                    [PDict [(''role'', PStr ''system''), (''content'', PStr SYSTEM_PROMPT)],
                     PDict [(''role'', PStr ''user''), (''content'', PStr ''horror'')],
                     PDict [(''role'', PStr ''assistant''),
                            (''content'', PStr (raw_result unknown_tool_step))],
                     PDict [(''role'', PStr ''developer''),
                            (''content'', PStr ''{"step": "OBSERVE", "tool": "search_web", "input": "horror", "output": "Error: Tool search_web not found."}'')],
                     PDict [(''role'', PStr ''assistant''),
                            (''content'', PStr (raw_result output_step))]],
                  chat_history =
                    [(''user'', ''horror''),
                     (''assistant'', tools_sign @ '' Fetching data using keyword: horror''),
                     (''assistant'', robot @ '' **MRE Recommendation:** Watch Mountain Commandos.'')]\<rparr>)\<close>
proof -
  define out where "out = ''Error: Tool search_web not found.''"
  define obs where "obs = PDict [(''step'', PStr ''OBSERVE''), (''tool'', PStr ''search_web''),
                      (''input'', PStr ''horror''), (''output'', PStr out)]"
  define st' where "st' = \<lparr>messages = messages asked @
                    [PDict [(''role'', PStr ''assistant''), (''content'', PStr (raw_result unknown_tool_step))],
                     PDict [(''role'', PStr ''developer''), (''content'', PStr (json_dumps obs))]],
                 chat_history = chat_history asked @
                    [(''assistant'', tools_sign @ '' Fetching data using keyword: horror'')]\<rparr>"
  have h1: "step (parsed unknown_tool_step) = ''TOOL''"
    by (simp add: unknown_tool_step_def)
  have h2: "tool (parsed unknown_tool_step) = Some ''search_web''"
    by (simp add: unknown_tool_step_def)
  have h3: "''search_web'' \<notin> set (map fst available_tools)"
    by (simp add: available_tools_def)
  have h4: "first_then_output unknown_tool_step (messages asked) = unknown_tool_step"
    by (rule first_call)
  have h5: "out = ''Error: Tool '' @ ''search_web'' @ '' not found.''"
    by (simp add: out_def)
  have inp: "input (parsed unknown_tool_step) = Some ''horror''"
    by (simp add: unknown_tool_step_def)
  have h6: "obs = PDict [(''step'', PStr ''OBSERVE''), (''tool'', PStr ''search_web''),
                      (''input'', (case input (parsed unknown_tool_step) of None \<Rightarrow> PNone | Some s \<Rightarrow> PStr s)),
                      (''output'', PStr out)]"
    by (simp add: obs_def inp)
  have h7: "st' = \<lparr>messages = messages asked @
                    [PDict [(''role'', PStr ''assistant''), (''content'', PStr (raw_result unknown_tool_step))],
                     PDict [(''role'', PStr ''developer''), (''content'', PStr (json_dumps obs))]],
                 chat_history = chat_history asked @
                    [(''assistant'', tools_sign @ '' Fetching data using keyword: ''
                        @ (case input (parsed unknown_tool_step) of None \<Rightarrow> ''None'' | Some s \<Rightarrow> s))]\<rparr>"
    by (simp add: st'_def inp)
  note inst = unregistered_tool_observed
    [where r = unknown_tool_step and t = "''search_web''"
       and model = "first_then_output unknown_tool_step" and st = asked
       and out = out and obs = obs and st' = st', OF h1 h2 h3 h4 h5 h6 h7]
  from inst have run: "run_tool (Some ''search_web'') (Some ''horror'') = Inr out"
    by (simp add: inp)
  from inst have name: "py_in ''search_web'' out" and marker: "py_in ''not found'' out"
    by simp_all
  from inst have dumped: \<open>json_dumps obs =
      ''{"step": "OBSERVE", "tool": "search_web", "input": "horror", "output": "Error: Tool search_web not found."}''\<close>
    by (simp add: inp json_str_search_web out_def del: json_dumps.simps)
  from inst have loop: "agent_loop (first_then_output unknown_tool_step) asked =
      (case loop_body st' (first_then_output unknown_tool_step (messages st')) of
         Inl err \<Rightarrow> Some (Inl err)
       | Inr (c, st'') \<Rightarrow>
           (case c of Break \<Rightarrow> Some (Inr st'')
            | Continue \<Rightarrow> agent_loop (first_then_output unknown_tool_step) st''))"
    by simp
  have next_call: "first_then_output unknown_tool_step (messages st') = output_step"
    by (simp add: first_then_output_def st'_def asked_def)
  have last_round: "loop_body st' output_step =
      Inr (Break, \<lparr>messages = messages st' @
                      [PDict [(''role'', PStr ''assistant''), (''content'', PStr (raw_result output_step))]],
                   chat_history = chat_history st' @
                      [(''assistant'', robot @ '' **MRE Recommendation:** Watch Mountain Commandos.'')]\<rparr>)"
    by (simp add: loop_body_def Let_def output_step_def msg_def add_message_def add_history_def
          fmt_opt_def)
  have final: "agent_loop (first_then_output unknown_tool_step) asked =
       Some (Inr \<lparr>messages = messages st' @
                      [PDict [(''role'', PStr ''assistant''), (''content'', PStr (raw_result output_step))]],
                   chat_history = chat_history st' @
                      [(''assistant'', robot @ '' **MRE Recommendation:** Watch Mountain Commandos.'')]\<rparr>)"
    unfolding loop next_call last_round by simp
  show ?thesis
    using h1 h2 h3 h4 run name marker final
    by (simp add: st'_def dumped asked_def msg_def out_def del: json_dumps.simps)
qed

subsection \<open>The observation after a tool call\<close>

text \<open>
  Claim C7: for every \<open>TOOL\<close> step the observation message is appended to the transcript
  right after the assistant message of that step and before the next call of the model,
  so every call of the model sees the latest tool result.

  A \<open>TOOL\<close> round that does not raise appends the two messages in this order and the next
  call of the model receives them (\<open>loop_body_transcript\<close>, \<open>agent_loop_Continue\<close>). On the
  \<open>TOOL\<close> step without input for the registered tool no observation is appended: the
  session the exception leaves behind ends with the assistant message of the step, and
  the next user turn sends the model a transcript in which the user message follows that
  step directly.
\<close>

theorem tool_step_without_observation:
  "(case loop_body st null_input_step of
      Inl (e, st') \<Rightarrow>
        messages st' = messages st @ [msg ''assistant'' (raw_result null_input_step)]
        \<and> user_turn model (Some ''action'') st' =
            agent_loop model
              (st'\<lparr>messages := messages st @ [msg ''assistant'' (raw_result null_input_step),
                                              msg ''user'' ''action''],
                   chat_history := chat_history st' @ [(''user'', ''action'')]\<rparr>)
    | Inr res \<Rightarrow> False)"
  by (simp add: loop_body_null_input session_adds user_turn_def)

subsection \<open>Reset\<close>


subsection \<open>Steps of no known kind\<close>

text \<open>
  Claim C10: for a step whose kind is none of \<open>START\<close>, \<open>PLAN\<close>, \<open>TOOL\<close>, \<open>OUTPUT\<close> the loop
  appends the raw assistant message to the transcript, appends no display entry, calls no
  tool, appends no observation and calls the model again; such a step never ends the
  turn.

  In the statement \<open>st'\<close> is the session after the round: the old session with the
  assistant message appended to the transcript and nothing else changed. The body ends in
  \<open>continue\<close>, and the loop goes on with a call of the model on the transcript of \<open>st'\<close>:
  what the loop returns is what the round on that answer returns. A model that answers
  every call with a step of no known kind never ends the turn.
\<close>

theorem other_step_only_recorded:
  assumes "step (parsed r) \<notin> {''START'', ''PLAN'', ''TOOL'', ''OUTPUT''}"
    and "model (messages st) = r"
    and "st' = st\<lparr>messages := messages st @
                  [PDict [(''role'', PStr ''assistant''), (''content'', PStr (raw_result r))]]\<rparr>"
  shows "loop_body st r = Inr (Continue, st')
         \<and> messages st' = messages st @
              [PDict [(''role'', PStr ''assistant''), (''content'', PStr (raw_result r))]]
         \<and> chat_history st' = chat_history st
         \<and> agent_loop model st =
             (case loop_body st' (model (messages st')) of
                Inl err \<Rightarrow> Some (Inl err)
              | Inr (c, st'') \<Rightarrow>
                  (case c of Break \<Rightarrow> Some (Inr st'') | Continue \<Rightarrow> agent_loop model st''))
         \<and> ((\<forall>transcript. step (parsed (model transcript)) \<notin> {''START'', ''PLAN'', ''TOOL'', ''OUTPUT''})
              \<longrightarrow> agent_loop model st = None)"
proof (intro conjI impI)
  show body: "loop_body st r = Inr (Continue, st')"
    using assms(1) by (simp add: loop_body_def Let_def assms(3) add_message_def msg_def)
  show "messages st' = messages st @
              [PDict [(''role'', PStr ''assistant''), (''content'', PStr (raw_result r))]]"
    by (simp add: assms(3))
  show "chat_history st' = chat_history st"
    by (simp add: assms(3))
  from body assms(2) have "loop_body st (model (messages st)) = Inr (Continue, st')"
    by simp
  from agent_loop_next [of st model st', OF this]
  show "agent_loop model st =
             (case loop_body st' (model (messages st')) of
                Inl err \<Rightarrow> Some (Inl err)
              | Inr (c, st'') \<Rightarrow>
                  (case c of Break \<Rightarrow> Some (Inr st'') | Continue \<Rightarrow> agent_loop model st''))" .
next
  assume other: "\<forall>transcript. step (parsed (model transcript)) \<notin> {''START'', ''PLAN'', ''TOOL'', ''OUTPUT''}"
  have "\<exists>st1. loop_body st0 (model (messages st0)) = Inr (Continue, st1)" for st0 :: session
    using other [rule_format, of "messages st0"]
    by (simp add: loop_body_def Let_def)
  then show "agent_loop model st = None"
    by (rule agent_loop_never_left)
qed

theorem other_step_only_recorded_witness:
  \<open>step (parsed observe_step) \<notin> {''START'', ''PLAN'', ''TOOL'', ''OUTPUT''}
   \<and> first_then_output observe_step (messages asked) = observe_step
   \<and> loop_body asked observe_step =
       Inr (Continue,
            \<lparr>messages =
               [PDict [(''role'', PStr ''system''), (''content'', PStr SYSTEM_PROMPT)],
                PDict [(''role'', PStr ''user''), (''content'', PStr ''horror'')],
                PDict [(''role'', PStr ''assistant''), (''content'', PStr (raw_result observe_step))]],
             chat_history = [(''user'', ''horror'')]\<rparr>)
   \<and> agent_loop (first_then_output observe_step) asked =
       Some (Inr \<lparr>messages =
                    [PDict [(''role'', PStr ''system''), (''content'', PStr SYSTEM_PROMPT)],
                     PDict [(''role'', PStr ''user''), (''content'', PStr ''horror'')],
                     PDict [(''role'', PStr ''assistant''), (''content'', PStr (raw_result observe_step))],
                     PDict [(''role'', PStr ''assistant''), (''content'', PStr (raw_result output_step))]],
                  chat_history =
                    [(''user'', ''horror''),
                     (''assistant'', robot @ '' **MRE Recommendation:** Watch Mountain Commandos.'')]\<rparr>)
   \<and> (\<forall>transcript. step (parsed ((\<lambda>t. observe_step) transcript))
          \<notin> {''START'', ''PLAN'', ''TOOL'', ''OUTPUT''})
   \<and> agent_loop (\<lambda>t. observe_step) asked = None\<close>
proof -
  define st' where "st' = asked\<lparr>messages := messages asked @
                  [PDict [(''role'', PStr ''assistant''), (''content'', PStr (raw_result observe_step))]]\<rparr>"
  have h1: "step (parsed observe_step) \<notin> {''START'', ''PLAN'', ''TOOL'', ''OUTPUT''}"
    by (simp add: observe_step_def)
  have h2: "first_then_output observe_step (messages asked) = observe_step"
    by (rule first_call)
  note inst = other_step_only_recorded
    [where r = observe_step and model = "first_then_output observe_step" and st = asked
       and st' = st', OF h1 h2 st'_def]
  from inst have body: "loop_body asked observe_step = Inr (Continue, st')"
    by simp
  from inst have loop: "agent_loop (first_then_output observe_step) asked =
      (case loop_body st' (first_then_output observe_step (messages st')) of
         Inl err \<Rightarrow> Some (Inl err)
       | Inr (c, st'') \<Rightarrow>
           (case c of Break \<Rightarrow> Some (Inr st'')
            | Continue \<Rightarrow> agent_loop (first_then_output observe_step) st''))"
    by simp
  have next_call: "first_then_output observe_step (messages st') = output_step"
    by (simp add: first_then_output_def st'_def asked_def)
  have last_round: "loop_body st' output_step =
      Inr (Break, \<lparr>messages = messages st' @
                      [PDict [(''role'', PStr ''assistant''), (''content'', PStr (raw_result output_step))]],
                   chat_history = chat_history st' @
                      [(''assistant'', robot @ '' **MRE Recommendation:** Watch Mountain Commandos.'')]\<rparr>)"
    by (simp add: loop_body_def Let_def output_step_def msg_def add_message_def add_history_def
          fmt_opt_def)
  have final: "agent_loop (first_then_output observe_step) asked =
       Some (Inr \<lparr>messages = messages st' @
                      [PDict [(''role'', PStr ''assistant''), (''content'', PStr (raw_result output_step))]],
                   chat_history = chat_history st' @
                      [(''assistant'', robot @ '' **MRE Recommendation:** Watch Mountain Commandos.'')]\<rparr>)"
    unfolding loop next_call last_round by simp
  have h3: "(\<lambda>t. observe_step) (messages asked) = observe_step"
    by simp
  have all: "\<forall>transcript. step (parsed ((\<lambda>t. observe_step) transcript))
          \<notin> {''START'', ''PLAN'', ''TOOL'', ''OUTPUT''}"
    using h1 by simp
  from other_step_only_recorded
    [where r = observe_step and model = "\<lambda>t. observe_step" and st = asked
       and st' = st', OF h1 h3 st'_def] all
  have never: "agent_loop (\<lambda>t. observe_step) asked = None"
    by blast
  show ?thesis
    using h1 h2 body final all never
    by (simp add: st'_def asked_def msg_def)
qed

end
